theory Spec2Isabelle
  imports Complex_Main
begin

section \<open>Array elements\<close>

text \<open>
  The kernel of \<^verbatim>\<open>src/eddymotion/model/kernels.py\<close> computes on NumPy arrays of
  double-precision numbers. The model reads a finite array element as the real number it
  denotes and computes exactly: rounding, overflow and underflow are outside the model.
  A division by zero does not raise in NumPy; it yields \<^verbatim>\<open>inf\<close> or \<^verbatim>\<open>nan\<close>, and every
  operation the kernel applies to such a value yields such a value again. The model keeps
  this as the one element \<open>NonFinite\<close>, so that \<open>x / 0\<close> is never a real number.

  The hyper-parameters and the entries of the input arrays are finite (type \<open>real\<close>, or
  \<open>int\<close> in an array of integer dtype); the entries of computed arrays are of type \<open>flt\<close>.
  The divisors of the source are hyper-parameters only, so the equations for a \<open>NonFinite\<close>
  divisor are never used.
\<close>

datatype flt = Finite real | NonFinite

instantiation flt :: "{zero, one, plus, minus, times, inverse, numeral, power}"
begin

definition zero_flt :: flt where
  "zero_flt = Finite 0"

definition one_flt :: flt where
  "one_flt = Finite 1"

fun plus_flt :: "flt \<Rightarrow> flt \<Rightarrow> flt" where
  "plus_flt (Finite x) (Finite y) = Finite (x + y)"
| "plus_flt _ _ = NonFinite"

fun minus_flt :: "flt \<Rightarrow> flt \<Rightarrow> flt" where
  "minus_flt (Finite x) (Finite y) = Finite (x - y)"
| "minus_flt _ _ = NonFinite"

fun times_flt :: "flt \<Rightarrow> flt \<Rightarrow> flt" where
  "times_flt (Finite x) (Finite y) = Finite (x * y)"
| "times_flt _ _ = NonFinite"

fun divide_flt :: "flt \<Rightarrow> flt \<Rightarrow> flt" where
  "divide_flt (Finite x) (Finite y) = (if y = 0 then NonFinite else Finite (x / y))"
| "divide_flt _ _ = NonFinite"

fun inverse_flt :: "flt \<Rightarrow> flt" where
  "inverse_flt (Finite y) = (if y = 0 then NonFinite else Finite (1 / y))"
| "inverse_flt NonFinite = NonFinite"

instance
proof
  fix x y z :: flt
  show "x + y + z = x + (y + z)"
    by (cases x; cases y; cases z) simp_all
qed

end

section \<open>Two-dimensional arrays\<close>

text \<open>
  A two-dimensional array is the list of its rows; all rows of an array have the same
  length. \<open>shape\<close> is NumPy's \<^verbatim>\<open>.shape\<close> (an array without rows is given zero columns),
  and \<^verbatim>\<open>len(m)\<close> is \<open>length m\<close>.
\<close>

datatype py_error = ValueError

text \<open>
  An input array carries its dtype: double precision or integer. \<open>elements\<close> reads the
  entries as numbers, which is what comparison with a float and true division do with an
  integer entry.
\<close>

datatype dtype = float64 | int64

datatype ndarray = FloatArray "real list list" | IntArray "int list list"

definition dtype_of :: "ndarray \<Rightarrow> dtype" where
  "dtype_of x = (case x of FloatArray m \<Rightarrow> float64 | IntArray m \<Rightarrow> int64)"

definition elements :: "ndarray \<Rightarrow> real list list" where
  "elements x = (case x of FloatArray m \<Rightarrow> m | IntArray m \<Rightarrow> map (map of_int) m)"

text \<open>
  Storing a computed value into an array of a given dtype, as an indexed assignment does:
  an integer array keeps the value truncated toward zero. What an integer array keeps of
  \<^verbatim>\<open>inf\<close> or \<^verbatim>\<open>nan\<close> depends on the platform and stays \<open>NonFinite\<close> here.
\<close>

definition trunc :: "real \<Rightarrow> int" where
  "trunc x = (if 0 \<le> x then \<lfloor>x\<rfloor> else \<lceil>x\<rceil>)"

fun astype :: "dtype \<Rightarrow> flt \<Rightarrow> flt" where
  "astype float64 x = x"
| "astype int64 (Finite x) = Finite (of_int (trunc x))"
| "astype int64 NonFinite = NonFinite"

definition shape :: "'e list list \<Rightarrow> nat \<times> nat" where
  "shape m = (length m, case m of [] \<Rightarrow> 0 | r # _ \<Rightarrow> length r)"

definition square :: "nat \<Rightarrow> 'e list list \<Rightarrow> bool" where
  "square n m \<longleftrightarrow> length m = n \<and> (\<forall>r \<in> set m. length r = n)"

text \<open>\<^verbatim>\<open>np.eye(n)\<close>\<close>

definition eye :: "nat \<Rightarrow> flt list list" where
  "eye n = map (\<lambda>i. map (\<lambda>j. if i = j then 1 else 0) [0..<n]) [0..<n]"

text \<open>
  NumPy's broadcasting of two-dimensional operands: two extents are compatible when they
  are equal or one of them is 1, and an operand of extent 1 is repeated along that axis.
  Incompatible extents raise \<^verbatim>\<open>ValueError\<close>.
\<close>

definition broadcast_dim :: "nat \<Rightarrow> nat \<Rightarrow> nat option" where
  "broadcast_dim d e =
     (if d = e then Some d else if d = 1 then Some e else if e = 1 then Some d else None)"

definition broadcast_to :: "nat \<times> nat \<Rightarrow> 'e list list \<Rightarrow> 'e list list option" where
  "broadcast_to s m =
     (case (s, shape m) of
        ((r, c), (rm, cm)) \<Rightarrow>
          if (rm = r \<or> rm = 1) \<and> (cm = c \<or> cm = 1)
          then Some (map (\<lambda>i. map (\<lambda>j. m ! (if rm = 1 then 0 else i) ! (if cm = 1 then 0 else j))
                                [0..<c]) [0..<r])
          else None)"

text \<open>\<^verbatim>\<open>x + y\<close> on two arrays\<close>

definition add_arrays :: "flt list list \<Rightarrow> flt list list \<Rightarrow> py_error + flt list list" where
  "add_arrays x y =
     (case (broadcast_dim (fst (shape x)) (fst (shape y)),
            broadcast_dim (snd (shape x)) (snd (shape y))) of
        (Some r, Some c) \<Rightarrow>
          (case (broadcast_to (r, c) x, broadcast_to (r, c) y) of
             (Some x', Some y') \<Rightarrow> Inr (map2 (map2 (+)) x' y')
           | _ \<Rightarrow> Inl ValueError)
      | _ \<Rightarrow> Inl ValueError)"

text \<open>\<^verbatim>\<open>c * m\<close> and \<^verbatim>\<open>m / c\<close> for a scalar \<open>c\<close>\<close>

definition scalar_times :: "real \<Rightarrow> flt list list \<Rightarrow> flt list list" where
  "scalar_times c m = map (map (\<lambda>x. Finite c * x)) m"

definition divide_scalar :: "flt list list \<Rightarrow> real \<Rightarrow> flt list list" where
  "divide_scalar m c = map (map (\<lambda>x. x / Finite c)) m"

text \<open>
  \<^verbatim>\<open>np.zeros((r, c, 3))\<close>, and the slice assignment \<^verbatim>\<open>G[:, :, k] = v\<close> on an array \<open>G\<close> of
  shape \<open>(r, c, 3)\<close>: the value is broadcast to \<open>(r, c)\<close>, or \<^verbatim>\<open>ValueError\<close> is raised.
\<close>

definition zeros3 :: "nat \<times> nat \<Rightarrow> flt list list list" where
  "zeros3 s = replicate (fst s) (replicate (snd s) (replicate 3 0))"

definition assign_slice ::
  "nat \<times> nat \<Rightarrow> nat \<Rightarrow> flt list list \<Rightarrow> flt list list list \<Rightarrow> py_error + flt list list list" where
  "assign_slice s k v G =
     (case broadcast_to s v of
        None \<Rightarrow> Inl ValueError
      | Some v' \<Rightarrow> Inr (map2 (map2 (\<lambda>cell x. cell[k := x])) G v'))"

definition bind_result :: "py_error + 'x \<Rightarrow> ('x \<Rightarrow> py_error + 'y) \<Rightarrow> py_error + 'y" where
  "bind_result r f = (case r of Inl e \<Rightarrow> Inl e | Inr x \<Rightarrow> f x)"

section \<open>The kernel\<close>

text \<open>
  \<^verbatim>\<open>class SphericalCovarianceKernel\<close>: three hyper-parameters and their bounds, each bound a
  pair of numbers or the string \<^verbatim>\<open>"fixed"\<close>.
\<close>

datatype bounds = Fixed | Bounds real real

record kernel =
  lambda_s :: real
  a :: real
  sigma_sq :: real
  lambda_s_bounds :: bounds
  a_bounds :: bounds
  sigma_sq_bounds :: bounds

text \<open>
  One element of line 98,
  \<^verbatim>\<open>np.where(theta <= self.a, 1 - 3 * (theta / self.a) ** 2 + 2 * (theta / self.a) ** 3, 0)\<close>.
\<close>

definition K_elem :: "real \<Rightarrow> real \<Rightarrow> flt" where
  "K_elem cutoff t =
     (if t \<le> cutoff
      then 1 - 3 * (Finite t / Finite cutoff) ^ 2 + 2 * (Finite t / Finite cutoff) ^ 3
      else 0)"

text \<open>
  One element of \<^verbatim>\<open>dists_deriv\<close> (lines 103 to 107): zero from \<^verbatim>\<open>np.zeros_like(theta)\<close>, an
  array of the dtype of \<^verbatim>\<open>theta\<close>, overwritten where the mask \<^verbatim>\<open>theta <= self.a\<close> holds by
  \<^verbatim>\<open>(3 * theta[mask] / self.a**2) - (1.5 * (theta[mask] / self.a) ** 2) / self.a\<close>, stored in
  that dtype.
\<close>

definition dists_deriv_elem :: "dtype \<Rightarrow> real \<Rightarrow> real \<Rightarrow> flt" where
  "dists_deriv_elem dt cutoff t =
     (if t \<le> cutoff
      then astype dt
             ((3 * Finite t / Finite cutoff ^ 2)
              - (1.5 * (Finite t / Finite cutoff) ^ 2) / Finite cutoff)
      else 0)"

text \<open>
  \<^verbatim>\<open>__call__(self, theta, theta_prime=None, eval_gradient=False)\<close>. The result is the pair
  of the kernel matrix and the gradient (\<open>None\<close> unless \<open>eval_gradient\<close>), or the
  \<^verbatim>\<open>ValueError\<close> of an assignment or a sum whose shapes do not fit.
\<close>

definition call ::
  "kernel \<Rightarrow> ndarray \<Rightarrow> ndarray option \<Rightarrow> bool
     \<Rightarrow> py_error + (flt list list \<times> flt list list list option)" where
  "call self theta0 theta_prime eval_gradient =
     (let theta = (case theta_prime of Some tp \<Rightarrow> tp | None \<Rightarrow> theta0);
          K = map (map (K_elem (a self))) (elements theta)
      in bind_result
           (if eval_gradient
            then
              (let K_gradient = zeros3 (shape (elements theta));
                   dists_deriv =
                     map (map (dists_deriv_elem (dtype_of theta) (a self))) (elements theta)
               in bind_result
                    (assign_slice (shape (elements theta)) 0 (divide_scalar K (lambda_s self))
                       K_gradient)
                    (\<lambda>G0. bind_result
                       (assign_slice (shape (elements theta)) 1
                          (scalar_times (lambda_s self) dists_deriv) G0)
                       (\<lambda>G1. bind_result
                          (assign_slice (shape (elements theta)) 2
                             (eye (length (elements theta))) G1)
                          (\<lambda>G2. Inr (Some G2)))))
            else Inr None)
           (\<lambda>K_gradient.
              bind_result
                (add_arrays (scalar_times (lambda_s self) K)
                   (scalar_times (sigma_sq self) (eye (length (elements theta)))))
                (\<lambda>K_out. Inr (K_out, K_gradient))))"

text \<open>\<^verbatim>\<open>diag(self, X)\<close>: \<^verbatim>\<open>np.full(X.shape[0], self.lambda_s + self.sigma_sq)\<close>\<close>

definition diag :: "kernel \<Rightarrow> real list list \<Rightarrow> flt list" where
  "diag self X = replicate (fst (shape X)) (Finite (lambda_s self) + Finite (sigma_sq self))"

text \<open>\<^verbatim>\<open>get_params(self, deep=True)\<close>: a dictionary from parameter names to values\<close>

definition get_params :: "kernel \<Rightarrow> bool \<Rightarrow> (string \<rightharpoonup> real)" where
  "get_params self deep =
     [''lambda_s'' \<mapsto> lambda_s self, ''a'' \<mapsto> a self, ''sigma_sq'' \<mapsto> sigma_sq self]"

text \<open>
  \<^verbatim>\<open>set_params(self, **params)\<close> mutates the object and returns it. Objects live in a store
  from references to object states; the method takes the reference \<open>self\<close> and the keyword
  dictionary, and returns the reference it returns together with the store it leaves.
  \<^verbatim>\<open>params.get(k, d)\<close> is the value at \<open>k\<close>, or \<open>d\<close> when \<open>k\<close> is absent.
\<close>

definition dict_get :: "(string \<rightharpoonup> 'v) \<Rightarrow> string \<Rightarrow> 'v \<Rightarrow> 'v" where
  "dict_get params k d = (case params k of Some v \<Rightarrow> v | None \<Rightarrow> d)"

definition set_params ::
  "nat \<Rightarrow> (string \<rightharpoonup> real) \<Rightarrow> (nat \<Rightarrow> kernel) \<Rightarrow> nat \<times> (nat \<Rightarrow> kernel)" where
  "set_params self params h =
     (let h1 = h(self := (h self)\<lparr>lambda_s := dict_get params ''lambda_s'' (lambda_s (h self))\<rparr>);
          h2 = h1(self := (h1 self)\<lparr>a := dict_get params ''a'' (a (h1 self))\<rparr>);
          h3 = h2(self := (h2 self)\<lparr>sigma_sq := dict_get params ''sigma_sq'' (sigma_sq (h2 self))\<rparr>)
      in (self, h3))"

section \<open>A concrete scenario\<close>

text \<open>
  The kernel with \<^verbatim>\<open>lambda_s=2\<close>, \<^verbatim>\<open>a=0.5\<close>, \<^verbatim>\<open>sigma_sq=0.1\<close> and the default bounds of
  \<^verbatim>\<open>__init__\<close>, and the angle matrix \<^verbatim>\<open>[[0, 0.25], [0.25, 0]]\<close>.
\<close>

definition scenario_kernel :: kernel where
  "scenario_kernel =
     \<lparr>lambda_s = 2, a = 0.5, sigma_sq = 0.1,
      lambda_s_bounds = Bounds 0.00001 10000, a_bounds = Bounds 0.00001 pi,
      sigma_sq_bounds = Bounds 0.00001 10000\<rparr>"

definition scenario_theta :: ndarray where
  "scenario_theta = FloatArray [[0, 0.25], [0.25, 0]]"

text \<open>
  An angle matrix of integer dtype, \<^verbatim>\<open>np.array([[0, 1], [1, 0]])\<close>, and the kernel with
  \<^verbatim>\<open>lambda_s=2\<close>, \<^verbatim>\<open>a=1\<close>, \<^verbatim>\<open>sigma_sq=0.1\<close>.
\<close>

definition integer_theta :: ndarray where
  "integer_theta = IntArray [[0, 1], [1, 0]]"

definition integer_kernel :: kernel where
  "integer_kernel = scenario_kernel\<lparr>a := 1\<rparr>"

section \<open>Evaluation rules for array elements\<close>

lemma numeral_flt: "(numeral k :: flt) = Finite (numeral k)"
  by (induction k) (simp_all only: numeral.simps one_flt_def plus_flt.simps)

lemma power_flt: "Finite x ^ n = Finite (x ^ n)"
  by (induction n) (simp_all add: one_flt_def)

lemma power_NonFinite: "NonFinite ^ n = (if n = 0 then 1 else NonFinite)"
  by (cases n) simp_all

lemmas flt_eval = zero_flt_def one_flt_def numeral_flt power_flt power_NonFinite

lemma K_elem_real:
  "c \<noteq> 0 \<Longrightarrow> K_elem c t = Finite (if t \<le> c then 1 - 3 * (t / c) ^ 2 + 2 * (t / c) ^ 3 else 0)"
  by (simp add: K_elem_def flt_eval)

lemma dists_deriv_elem_real:
  "c \<noteq> 0 \<Longrightarrow> dists_deriv_elem float64 c t =
     Finite (if t \<le> c then (3 * t / c ^ 2) - (1.5 * (t / c) ^ 2) / c else 0)"
  by (simp add: dists_deriv_elem_def flt_eval)

section \<open>Square arrays\<close>

lemma shape_square: "square n m \<Longrightarrow> shape m = (n, n)"
  by (cases m) (auto simp: square_def shape_def)

lemma square_length: "square n m \<Longrightarrow> length m = n"
  by (simp add: square_def)

lemma broadcast_to_square: "square n m \<Longrightarrow> broadcast_to (n, n) m = Some m"
proof -
  assume sq: "square n m"
  have "map (\<lambda>i. map (\<lambda>j. m ! (if n = 1 then 0 else i) ! (if n = 1 then 0 else j)) [0..<n]) [0..<n] = m"
    using sq by (auto intro!: nth_equalityI simp: square_def)
  then show ?thesis
    using sq by (simp add: broadcast_to_def shape_square)
qed

lemma square_map_map: "square n m \<Longrightarrow> square n (map (map f) m)"
  by (auto simp: square_def)

lemma square_eye: "square n (eye n)"
  by (auto simp: square_def eye_def)

lemma eye_nth: "i < n \<Longrightarrow> j < n \<Longrightarrow> eye n ! i ! j = (if i = j then 1 else 0)"
  by (simp add: eye_def)

lemma square_map2: "square n x \<Longrightarrow> square n y \<Longrightarrow> square n (map2 (map2 f) x y)"
  by (auto simp: square_def set_zip)

lemma map2_map2_nth:
  "square n x \<Longrightarrow> square n y \<Longrightarrow> i < n \<Longrightarrow> j < n
     \<Longrightarrow> map2 (map2 f) x y ! i ! j = f (x ! i ! j) (y ! i ! j)"
  by (simp add: square_def)

lemma add_arrays_square:
  "square n x \<Longrightarrow> square n y \<Longrightarrow> add_arrays x y = Inr (map2 (map2 (+)) x y)"
  by (simp add: add_arrays_def shape_square broadcast_dim_def broadcast_to_square)

lemma assign_slice_square:
  "square n v \<Longrightarrow> assign_slice (n, n) k v G = Inr (map2 (map2 (\<lambda>cell x. cell[k := x])) G v)"
  by (simp add: assign_slice_def broadcast_to_square)

lemma square_zeros3: "square n (zeros3 (n, n))"
  by (simp add: square_def zeros3_def)

lemma zeros3_nth: "i < n \<Longrightarrow> j < n \<Longrightarrow> zeros3 (n, n) ! i ! j = [0, 0, 0]"
  by (simp add: zeros3_def numeral_3_eq_3)

section \<open>The call on a square array\<close>

lemma call_square:
  assumes sq: "square n (elements theta)"
  obtains K G where
    "call self theta None eval_gradient = Inr (K, if eval_gradient then Some G else None)"
    "square n K" "square n G"
    "\<And>i j. i < n \<Longrightarrow> j < n \<Longrightarrow>
       K ! i ! j = Finite (lambda_s self) * K_elem (a self) (elements theta ! i ! j)
                   + Finite (sigma_sq self) * (if i = j then 1 else 0)"
    "\<And>i j. i < n \<Longrightarrow> j < n \<Longrightarrow>
       G ! i ! j = [K_elem (a self) (elements theta ! i ! j) / Finite (lambda_s self),
                    Finite (lambda_s self) * dists_deriv_elem (dtype_of theta) (a self) (elements theta ! i ! j),
                    if i = j then 1 else 0]"
proof -
  let ?Kb = "map (map (K_elem (a self))) (elements theta)"
  let ?A = "divide_scalar ?Kb (lambda_s self)"
  let ?B = "scalar_times (lambda_s self)
              (map (map (dists_deriv_elem (dtype_of theta) (a self))) (elements theta))"
  let ?L = "scalar_times (lambda_s self) ?Kb"
  let ?S = "scalar_times (sigma_sq self) (eye n)"
  let ?G0 = "map2 (map2 (\<lambda>cell x. cell[0 := x])) (zeros3 (n, n)) ?A"
  let ?G1 = "map2 (map2 (\<lambda>cell x. cell[1 := x])) ?G0 ?B"
  let ?G2 = "map2 (map2 (\<lambda>cell x. cell[2 := x])) ?G1 (eye n)"
  let ?K = "map2 (map2 (+)) ?L ?S"
  have len: "length (elements theta) = n" and sh: "shape (elements theta) = (n, n)"
    using sq by (simp_all add: square_length shape_square)
  have sqA: "square n ?A" and sqB: "square n ?B" and sqL: "square n ?L" and sqS: "square n ?S"
    using sq by (simp_all add: divide_scalar_def scalar_times_def square_map_map square_eye)
  have sq0: "square n ?G0"
    by (rule square_map2 [OF square_zeros3 sqA])
  have sq1: "square n ?G1"
    by (rule square_map2 [OF sq0 sqB])
  have sq2: "square n ?G2"
    by (rule square_map2 [OF sq1 square_eye])
  have sqK: "square n ?K"
    by (rule square_map2 [OF sqL sqS])
  have run: "call self theta None eval_gradient = Inr (?K, if eval_gradient then Some ?G2 else None)"
    by (simp add: call_def Let_def bind_result_def len sh assign_slice_square sqA sqB square_eye
        add_arrays_square [OF sqL sqS])
  have K: "?K ! i ! j = Finite (lambda_s self) * K_elem (a self) (elements theta ! i ! j)
                   + Finite (sigma_sq self) * (if i = j then 1 else 0)"
    if ij: "i < n" "j < n" for i j
  proof -
    have "?K ! i ! j = ?L ! i ! j + ?S ! i ! j"
      by (rule map2_map2_nth [OF sqL sqS ij])
    moreover have "?L ! i ! j = Finite (lambda_s self) * K_elem (a self) (elements theta ! i ! j)"
      using sq ij by (simp add: scalar_times_def square_def)
    moreover have "?S ! i ! j = Finite (sigma_sq self) * (if i = j then 1 else 0)"
      using ij by (simp add: scalar_times_def eye_def)
    ultimately show ?thesis
      by simp
  qed
  have G: "?G2 ! i ! j = [K_elem (a self) (elements theta ! i ! j) / Finite (lambda_s self),
                    Finite (lambda_s self) * dists_deriv_elem (dtype_of theta) (a self) (elements theta ! i ! j),
                    if i = j then 1 else 0]"
    if ij: "i < n" "j < n" for i j
  proof -
    have A: "?A ! i ! j = K_elem (a self) (elements theta ! i ! j) / Finite (lambda_s self)"
      using sq ij by (simp add: divide_scalar_def square_def)
    have B: "?B ! i ! j = Finite (lambda_s self) * dists_deriv_elem (dtype_of theta) (a self) (elements theta ! i ! j)"
      using sq ij by (simp add: scalar_times_def square_def)
    have "?G2 ! i ! j = (?G1 ! i ! j)[2 := eye n ! i ! j]"
      by (rule map2_map2_nth [OF sq1 square_eye ij])
    also have "?G1 ! i ! j = (?G0 ! i ! j)[1 := ?B ! i ! j]"
      by (rule map2_map2_nth [OF sq0 sqB ij])
    also have "?G0 ! i ! j = (zeros3 (n, n) ! i ! j)[0 := ?A ! i ! j]"
      by (rule map2_map2_nth [OF square_zeros3 sqA ij])
    finally show ?thesis
      using ij by (simp add: A B zeros3_nth eye_nth)
  qed
  show thesis
    by (rule that [OF run sqK sq2 K G])
qed

lemma scenario_call:
  "call scenario_kernel scenario_theta None True =
     Inr ([[Finite 2.1, Finite 1], [Finite 1, Finite 2.1]],
          Some [[[Finite 0.5, Finite 0, Finite 1], [Finite 0.25, Finite 4.5, Finite 0]],
                [[Finite 0.25, Finite 4.5, Finite 0], [Finite 0.5, Finite 0, Finite 1]]])"
  by (simp add: call_def scenario_kernel_def scenario_theta_def elements_def Let_def bind_result_def
      assign_slice_def broadcast_to_def shape_def add_arrays_def broadcast_dim_def
      scalar_times_def divide_scalar_def eye_def zeros3_def K_elem_def dists_deriv_elem_def
      dtype_of_def flt_eval upt_rec power_divide numeral_3_eq_3)

lemma scenario_square: "square 2 (elements scenario_theta)"
  by (simp add: square_def scenario_theta_def elements_def)

section \<open>The kernel matrix\<close>

lemma scenario_call_plain:
  "call scenario_kernel scenario_theta None False =
     Inr ([[Finite 2.1, Finite 1], [Finite 1, Finite 2.1]], None)"
  by (simp add: call_def scenario_kernel_def scenario_theta_def elements_def Let_def bind_result_def
      broadcast_to_def shape_def add_arrays_def broadcast_dim_def
      scalar_times_def eye_def K_elem_def flt_eval upt_rec power_divide)

text \<open>
  C1. For a positive cutoff \<open>a\<close> and an \<open>n\<close>-by-\<open>n\<close> angle matrix \<open>theta\<close>, the call (without
  \<open>theta_prime\<close>, with or without the gradient) returns an \<open>n\<close>-by-\<open>n\<close> matrix \<open>K\<close> whose entry
  \<open>(i, j)\<close> is \<open>lambda_s * (1 - 3 (theta[i,j]/a)\<^sup>2 + 2 (theta[i,j]/a)\<^sup>3)\<close> when
  \<open>theta[i,j] \<le> a\<close> and \<open>0\<close> otherwise, plus \<open>sigma_sq\<close> when \<open>i = j\<close> and nothing elsewhere. For
  \<open>theta = [[0, 0.25], [0.25, 0]]\<close>, \<open>lambda_s = 2\<close>, \<open>a = 0.5\<close>, \<open>sigma_sq = 0.1\<close> the matrix is
  \<open>[[2.1, 1.0], [1.0, 2.1]]\<close>.
\<close>

theorem C1_kernel_matrix:
  assumes "0 < a self" and "square n (elements theta)"
  shows "(\<exists>K G. call self theta None eval_gradient = Inr (K, G) \<and> square n K \<and>
            (\<forall>i<n. \<forall>j<n. K ! i ! j =
               Finite ((if elements theta ! i ! j \<le> a self
                        then lambda_s self
                               * (1 - 3 * (elements theta ! i ! j / a self) ^ 2 + 2 * (elements theta ! i ! j / a self) ^ 3)
                        else 0)
                       + (if i = j then sigma_sq self else 0))))
       \<and> call scenario_kernel scenario_theta None False =
           Inr ([[Finite 2.1, Finite 1], [Finite 1, Finite 2.1]], None)"
proof -
  obtain K G
    where run: "call self theta None eval_gradient = Inr (K, if eval_gradient then Some G else None)"
    and sqK: "square n K"
    and sqG: "square n G"
    and K: "\<And>i j. i < n \<Longrightarrow> j < n \<Longrightarrow>
       K ! i ! j = Finite (lambda_s self) * K_elem (a self) (elements theta ! i ! j)
                   + Finite (sigma_sq self) * (if i = j then 1 else 0)"
    and G: "\<And>i j. i < n \<Longrightarrow> j < n \<Longrightarrow>
       G ! i ! j = [K_elem (a self) (elements theta ! i ! j) / Finite (lambda_s self),
                    Finite (lambda_s self) * dists_deriv_elem (dtype_of theta) (a self) (elements theta ! i ! j),
                    if i = j then 1 else 0]"
    by (rule call_square [OF assms(2), of self eval_gradient]) (rule that)
  have "K ! i ! j =
               Finite ((if elements theta ! i ! j \<le> a self
                        then lambda_s self
                               * (1 - 3 * (elements theta ! i ! j / a self) ^ 2 + 2 * (elements theta ! i ! j / a self) ^ 3)
                        else 0)
                       + (if i = j then sigma_sq self else 0))"
    if "i < n" "j < n" for i j
    using assms(1) K [OF that] by (simp add: K_elem_real flt_eval)
  then have "call self theta None eval_gradient = Inr (K, if eval_gradient then Some G else None)
       \<and> square n K \<and>
            (\<forall>i<n. \<forall>j<n. K ! i ! j =
               Finite ((if elements theta ! i ! j \<le> a self
                        then lambda_s self
                               * (1 - 3 * (elements theta ! i ! j / a self) ^ 2 + 2 * (elements theta ! i ! j / a self) ^ 3)
                        else 0)
                       + (if i = j then sigma_sq self else 0)))"
    using run sqK by blast
  then have "\<exists>K G. call self theta None eval_gradient = Inr (K, G) \<and> square n K \<and>
            (\<forall>i<n. \<forall>j<n. K ! i ! j =
               Finite ((if elements theta ! i ! j \<le> a self
                        then lambda_s self
                               * (1 - 3 * (elements theta ! i ! j / a self) ^ 2 + 2 * (elements theta ! i ! j / a self) ^ 3)
                        else 0)
                       + (if i = j then sigma_sq self else 0)))"
    by (intro exI)
  then show ?thesis
    using scenario_call_plain by (rule conjI)
qed

text \<open>The entries of the matrix of the scenario, read off the general statement.\<close>

theorem C1_kernel_matrix_witness:
  "0 < a scenario_kernel \<and> square 2 (elements scenario_theta) \<and>
   (\<exists>K G. call scenario_kernel scenario_theta None True = Inr (K, G) \<and>
      K ! 0 ! 0 = Finite 2.1 \<and> K ! 0 ! 1 = Finite 1 \<and> K ! 1 ! 0 = Finite 1 \<and> K ! 1 ! 1 = Finite 2.1)"
proof -
  have pos: "0 < a scenario_kernel"
    by (simp add: scenario_kernel_def)
  obtain K G where run: "call scenario_kernel scenario_theta None True = Inr (K, G)"
    and K: "\<forall>i<2. \<forall>j<2. K ! i ! j =
               Finite ((if elements scenario_theta ! i ! j \<le> a scenario_kernel
                        then lambda_s scenario_kernel
                               * (1 - 3 * (elements scenario_theta ! i ! j / a scenario_kernel) ^ 2
                                  + 2 * (elements scenario_theta ! i ! j / a scenario_kernel) ^ 3)
                        else 0)
                       + (if i = j then sigma_sq scenario_kernel else 0))"
    using C1_kernel_matrix [OF pos scenario_square, of True] by blast
  have "K ! 0 ! 0 = Finite 2.1" "K ! 0 ! 1 = Finite 1" "K ! 1 ! 0 = Finite 1" "K ! 1 ! 1 = Finite 2.1"
    using K by (simp_all add: scenario_kernel_def scenario_theta_def elements_def power_divide)
  with pos scenario_square run show ?thesis
    by blast
qed

section \<open>The gradient\<close>

text \<open>
  On an \<open>n\<close>-by-\<open>n\<close> array \<open>theta\<close> of double-precision dtype, the call with \<open>eval_gradient\<close>
  returns a gradient of shape \<open>(n, n, 3)\<close>. Its entry \<open>(i, j)\<close> of column 1 is
  \<open>lambda_s * ((3 theta[i,j] / a\<^sup>2) - (1.5 (theta[i,j]/a)\<^sup>2) / a)\<close> when \<open>theta[i,j] \<le> a\<close> and \<open>0\<close>
  otherwise: stated on array elements, where a division by \<open>a = 0\<close> is not a number, and as a
  real number for \<open>a \<noteq> 0\<close>. Column 2 is the identity matrix.
\<close>

lemma gradient_columns_float64:
  assumes dt: "dtype_of theta = float64" and sq: "square n (elements theta)"
  shows "\<exists>K G. call self theta None True = Inr (K, Some G) \<and> length G = n \<and>
           (\<forall>i<n. length (G ! i) = n \<and>
              (\<forall>j<n. length (G ! i ! j) = 3
                 \<and> G ! i ! j ! 1 =
                     (if elements theta ! i ! j \<le> a self
                      then Finite (lambda_s self)
                             * ((3 * Finite (elements theta ! i ! j) / Finite (a self) ^ 2)
                                - (1.5 * (Finite (elements theta ! i ! j) / Finite (a self)) ^ 2) / Finite (a self))
                      else 0)
                 \<and> (a self \<noteq> 0 \<longrightarrow>
                      G ! i ! j ! 1 =
                        Finite (if elements theta ! i ! j \<le> a self
                                then lambda_s self
                                       * ((3 * elements theta ! i ! j / a self ^ 2)
                                          - (1.5 * (elements theta ! i ! j / a self) ^ 2) / a self)
                                else 0))
                 \<and> G ! i ! j ! 2 = (if i = j then 1 else 0)))"
proof -
  let ?P = "\<lambda>G i j. length (G ! i ! j) = 3
                 \<and> G ! i ! j ! 1 =
                     (if elements theta ! i ! j \<le> a self
                      then Finite (lambda_s self)
                             * ((3 * Finite (elements theta ! i ! j) / Finite (a self) ^ 2)
                                - (1.5 * (Finite (elements theta ! i ! j) / Finite (a self)) ^ 2) / Finite (a self))
                      else 0)
                 \<and> (a self \<noteq> 0 \<longrightarrow>
                      G ! i ! j ! 1 =
                        Finite (if elements theta ! i ! j \<le> a self
                                then lambda_s self
                                       * ((3 * elements theta ! i ! j / a self ^ 2)
                                          - (1.5 * (elements theta ! i ! j / a self) ^ 2) / a self)
                                else 0))
                 \<and> G ! i ! j ! 2 = (if i = j then 1 else 0)"
  obtain K G
    where run: "call self theta None True = Inr (K, if True then Some G else None)"
    and sqK: "square n K"
    and sqG: "square n G"
    and K: "\<And>i j. i < n \<Longrightarrow> j < n \<Longrightarrow>
       K ! i ! j = Finite (lambda_s self) * K_elem (a self) (elements theta ! i ! j)
                   + Finite (sigma_sq self) * (if i = j then 1 else 0)"
    and G: "\<And>i j. i < n \<Longrightarrow> j < n \<Longrightarrow>
       G ! i ! j = [K_elem (a self) (elements theta ! i ! j) / Finite (lambda_s self),
                    Finite (lambda_s self) * dists_deriv_elem (dtype_of theta) (a self) (elements theta ! i ! j),
                    if i = j then 1 else 0]"
    by (rule call_square [OF sq, of self True]) (rule that)
  have cell: "?P G i j" if ij: "i < n" "j < n" for i j
  proof (intro conjI impI)
    show "length (G ! i ! j) = 3"
      by (simp add: G [OF ij])
    have "Finite (lambda_s self) * dists_deriv_elem (dtype_of theta) (a self) (elements theta ! i ! j) =
          (if elements theta ! i ! j \<le> a self
                      then Finite (lambda_s self)
                             * ((3 * Finite (elements theta ! i ! j) / Finite (a self) ^ 2)
                                - (1.5 * (Finite (elements theta ! i ! j) / Finite (a self)) ^ 2) / Finite (a self))
                      else 0)"
      by (simp add: dt dists_deriv_elem_def zero_flt_def)
    then show "G ! i ! j ! 1 =
                     (if elements theta ! i ! j \<le> a self
                      then Finite (lambda_s self)
                             * ((3 * Finite (elements theta ! i ! j) / Finite (a self) ^ 2)
                                - (1.5 * (Finite (elements theta ! i ! j) / Finite (a self)) ^ 2) / Finite (a self))
                      else 0)"
      by (simp add: G [OF ij])
    show "G ! i ! j ! 2 = (if i = j then 1 else 0)"
      by (simp add: G [OF ij])
  next
    assume "a self \<noteq> 0"
    then have "Finite (lambda_s self) * dists_deriv_elem (dtype_of theta) (a self) (elements theta ! i ! j) =
        Finite (if elements theta ! i ! j \<le> a self
                                then lambda_s self
                                       * ((3 * elements theta ! i ! j / a self ^ 2)
                                          - (1.5 * (elements theta ! i ! j / a self) ^ 2) / a self)
                                else 0)"
      by (simp add: dt dists_deriv_elem_real)
    then show "G ! i ! j ! 1 =
                        Finite (if elements theta ! i ! j \<le> a self
                                then lambda_s self
                                       * ((3 * elements theta ! i ! j / a self ^ 2)
                                          - (1.5 * (elements theta ! i ! j / a self) ^ 2) / a self)
                                else 0)"
      by (simp add: G [OF ij])
  qed
  have rows: "\<forall>i<n. length (G ! i) = n \<and> (\<forall>j<n. ?P G i j)"
  proof (rule allI, rule impI, rule conjI)
    fix i
    assume i: "i < n"
    show "length (G ! i) = n"
      using sqG i by (simp add: square_def)
    show "\<forall>j<n. ?P G i j"
    proof (rule allI, rule impI)
      fix j
      assume "j < n"
      with i show "?P G i j"
        by (rule cell)
    qed
  qed
  have "call self theta None True = Inr (K, Some G)"
    using run by simp
  moreover have "length G = n"
    using sqG by (simp add: square_def)
  ultimately have "call self theta None True = Inr (K, Some G) \<and> length G = n \<and>
           (\<forall>i<n. length (G ! i) = n \<and> (\<forall>j<n. ?P G i j))"
    using rows by (intro conjI)
  then show ?thesis
    by (intro exI)
qed

lemma integer_call:
  "call integer_kernel integer_theta None True =
     Inr ([[Finite 2.1, Finite 0], [Finite 0, Finite 2.1]],
          Some [[[Finite 0.5, Finite 0, Finite 1], [Finite 0, Finite 2, Finite 0]],
                [[Finite 0, Finite 2, Finite 0], [Finite 0.5, Finite 0, Finite 1]]])"
  by (simp add: call_def integer_kernel_def scenario_kernel_def integer_theta_def elements_def
      Let_def bind_result_def assign_slice_def broadcast_to_def shape_def add_arrays_def
      broadcast_dim_def scalar_times_def divide_scalar_def eye_def zeros3_def K_elem_def
      dists_deriv_elem_def dtype_of_def trunc_def flt_eval upt_rec numeral_3_eq_3)

text \<open>
  C2. Column 1 of the gradient is to be
  \<open>lambda_s * ((3 theta[i,j] / a\<^sup>2) - (1.5 (theta[i,j]/a)\<^sup>2) / a)\<close> where \<open>theta[i,j] \<le> a\<close>, for every
  \<open>n\<close>-by-\<open>n\<close> \<open>theta\<close>. On the 2-by-2 array \<open>[[0, 1], [1, 0]]\<close> of integer dtype with
  \<open>lambda_s = 2\<close> and \<open>a = 1\<close> the call returns a gradient of shape \<open>(2, 2, 3)\<close> with the
  identity in column 2, but entry \<open>(0, 1)\<close> of column 1 is \<open>2\<close>, where the formula gives
  \<open>2 * (3 - 1.5) = 3\<close>: \<^verbatim>\<open>dists_deriv\<close> is created by \<^verbatim>\<open>np.zeros_like(theta)\<close> with the integer
  dtype of \<^verbatim>\<open>theta\<close>, and the assignment of line 105 stores \<open>1.5\<close> as \<open>1\<close>. Line 98 computes the
  base correlation of the same array without loss.
\<close>

theorem C2_integer_theta_truncated:
  "shape (elements integer_theta) = (2, 2)
   \<and> elements integer_theta ! 0 ! 1 \<le> a integer_kernel
   \<and> call integer_kernel integer_theta None True =
       Inr ([[Finite 2.1, Finite 0], [Finite 0, Finite 2.1]],
            Some [[[Finite 0.5, Finite 0, Finite 1], [Finite 0, Finite 2, Finite 0]],
                  [[Finite 0, Finite 2, Finite 0], [Finite 0.5, Finite 0, Finite 1]]])
   \<and> [[[Finite 0.5, Finite 0, Finite 1], [Finite 0, Finite 2, Finite 0]],
       [[Finite 0, Finite 2, Finite 0], [Finite 0.5, Finite 0, Finite 1]]] ! 0 ! 1 ! 1 = Finite 2
   \<and> Finite (lambda_s integer_kernel)
       * ((3 * Finite (elements integer_theta ! 0 ! 1) / Finite (a integer_kernel) ^ 2)
          - (1.5 * (Finite (elements integer_theta ! 0 ! 1) / Finite (a integer_kernel)) ^ 2)
            / Finite (a integer_kernel))
       = Finite 3"
proof -
  have "shape (elements integer_theta) = (2, 2)"
    and "elements integer_theta ! 0 ! 1 \<le> a integer_kernel"
    by (simp_all add: integer_theta_def integer_kernel_def elements_def shape_def)
  moreover have "Finite (lambda_s integer_kernel)
       * ((3 * Finite (elements integer_theta ! 0 ! 1) / Finite (a integer_kernel) ^ 2)
          - (1.5 * (Finite (elements integer_theta ! 0 ! 1) / Finite (a integer_kernel)) ^ 2)
            / Finite (a integer_kernel))
       = Finite 3"
    by (simp add: integer_theta_def integer_kernel_def scenario_kernel_def elements_def flt_eval)
  ultimately show ?thesis
    by (simp add: integer_call)
qed

text \<open>
  C3. Column 0 of the gradient is to be the returned kernel matrix \<open>K\<close> divided by
  \<open>lambda_s\<close>. In the scenario the call returns \<open>K = [[2.1, 1], [1, 2.1]]\<close> and a gradient whose
  column 0 is \<open>0.5\<close> at \<open>(0, 0)\<close> and \<open>0.25\<close> at \<open>(0, 1)\<close>, where \<open>K / lambda_s\<close> is \<open>1.05\<close> and
  \<open>0.5\<close>. The \<^verbatim>\<open>K\<close> that line 108 divides by \<^verbatim>\<open>self.lambda_s\<close> is the base correlation of
  line 98, which line 112 only afterwards scales by \<^verbatim>\<open>lambda_s\<close> and adds the noise to. The
  gradient with respect to the logarithm of \<open>lambda_s\<close>, which the docstring announces, is
  \<open>lambda_s\<close> times the base correlation: \<open>2\<close> and \<open>1\<close> at these entries.
\<close>

theorem C3_column0_scenario:
  "0 < a scenario_kernel \<and> 0 < lambda_s scenario_kernel
   \<and> shape (elements scenario_theta) = (2, 2)
   \<and> call scenario_kernel scenario_theta None True =
       Inr ([[Finite 2.1, Finite 1], [Finite 1, Finite 2.1]],
            Some [[[Finite 0.5, Finite 0, Finite 1], [Finite 0.25, Finite 4.5, Finite 0]],
                  [[Finite 0.25, Finite 4.5, Finite 0], [Finite 0.5, Finite 0, Finite 1]]])
   \<and> [[[Finite 0.5, Finite 0, Finite 1], [Finite 0.25, Finite 4.5, Finite 0]],
       [[Finite 0.25, Finite 4.5, Finite 0], [Finite 0.5, Finite 0, Finite 1]]] ! 0 ! 0 ! 0
       = Finite 0.5
   \<and> [[Finite 2.1, Finite 1], [Finite 1, Finite 2.1]] ! 0 ! 0 / Finite (lambda_s scenario_kernel)
       = Finite 1.05
   \<and> [[[Finite 0.5, Finite 0, Finite 1], [Finite 0.25, Finite 4.5, Finite 0]],
       [[Finite 0.25, Finite 4.5, Finite 0], [Finite 0.5, Finite 0, Finite 1]]] ! 0 ! 1 ! 0
       = Finite 0.25
   \<and> [[Finite 2.1, Finite 1], [Finite 1, Finite 2.1]] ! 0 ! 1 / Finite (lambda_s scenario_kernel)
       = Finite 0.5
   \<and> Finite (lambda_s scenario_kernel) * K_elem (a scenario_kernel) (elements scenario_theta ! 0 ! 1)
       = Finite 1"
proof -
  have "0 < a scenario_kernel" "0 < lambda_s scenario_kernel"
    "shape (elements scenario_theta) = (2, 2)"
    by (simp_all add: scenario_kernel_def scenario_theta_def elements_def shape_def)
  moreover have "Finite 2.1 / Finite (lambda_s scenario_kernel) = Finite 1.05"
    "Finite 1 / Finite (lambda_s scenario_kernel) = Finite 0.5"
    by (simp_all add: scenario_kernel_def)
  moreover have "Finite (lambda_s scenario_kernel)
      * K_elem (a scenario_kernel) (elements scenario_theta ! 0 ! 1) = Finite 1"
    by (simp add: scenario_kernel_def scenario_theta_def elements_def K_elem_def flt_eval
        power_divide)
  ultimately show ?thesis
    by (simp add: scenario_call)
qed

section \<open>The second argument\<close>

text \<open>
  C4. A call with \<open>theta\<close>, a supplied \<open>theta_prime\<close> and any \<open>eval_gradient\<close> returns what the
  call with \<open>theta_prime\<close> as first argument and no second argument returns; so the result
  is the same for every first argument \<open>theta\<close>.
\<close>

theorem C4_theta_prime_replaces_theta:
  "call self theta (Some theta_prime) eval_gradient = call self theta_prime None eval_gradient
   \<and> call self theta (Some theta_prime) eval_gradient = call self theta' (Some theta_prime) eval_gradient"
  by (simp add: call_def)

section \<open>Symmetry and the diagonal\<close>

text \<open>
  C5. For \<open>a > 0\<close> and a symmetric \<open>n\<close>-by-\<open>n\<close> matrix \<open>theta\<close> with zero diagonal, the returned
  matrix \<open>K\<close> is symmetric and \<open>K[i,i] = lambda_s + sigma_sq\<close> for every \<open>i\<close>. The bounds
  \<open>lambda_s \<ge> 0\<close> and \<open>sigma_sq \<ge> 0\<close> of the specification are not needed.
\<close>

theorem C5_symmetric_diagonal:
  assumes "0 < a self" and "square n (elements theta)"
    and "\<forall>i<n. \<forall>j<n. elements theta ! i ! j = elements theta ! j ! i" and "\<forall>i<n. elements theta ! i ! i = 0"
  shows "\<exists>K G. call self theta None eval_gradient = Inr (K, G) \<and> square n K \<and>
           (\<forall>i<n. \<forall>j<n. K ! i ! j = K ! j ! i) \<and>
           (\<forall>i<n. K ! i ! i = Finite (lambda_s self + sigma_sq self))"
proof -
  obtain K G
    where run: "call self theta None eval_gradient = Inr (K, if eval_gradient then Some G else None)"
    and sqK: "square n K"
    and sqG: "square n G"
    and K: "\<And>i j. i < n \<Longrightarrow> j < n \<Longrightarrow>
       K ! i ! j = Finite (lambda_s self) * K_elem (a self) (elements theta ! i ! j)
                   + Finite (sigma_sq self) * (if i = j then 1 else 0)"
    and G: "\<And>i j. i < n \<Longrightarrow> j < n \<Longrightarrow>
       G ! i ! j = [K_elem (a self) (elements theta ! i ! j) / Finite (lambda_s self),
                    Finite (lambda_s self) * dists_deriv_elem (dtype_of theta) (a self) (elements theta ! i ! j),
                    if i = j then 1 else 0]"
    by (rule call_square [OF assms(2), of self eval_gradient]) (rule that)
  have sym: "K ! i ! j = K ! j ! i" if "i < n" "j < n" for i j
  proof -
    have "elements theta ! i ! j = elements theta ! j ! i"
      using assms(3) that by simp
    then show ?thesis
      using that by (simp add: K)
  qed
  have dia: "K ! i ! i = Finite (lambda_s self + sigma_sq self)" if "i < n" for i
  proof -
    have "elements theta ! i ! i = 0"
      using assms(4) that by simp
    then show ?thesis
      using assms(1) that by (simp add: K K_elem_real flt_eval)
  qed
  have "call self theta None eval_gradient = Inr (K, if eval_gradient then Some G else None)
     \<and> square n K \<and> (\<forall>i<n. \<forall>j<n. K ! i ! j = K ! j ! i)
     \<and> (\<forall>i<n. K ! i ! i = Finite (lambda_s self + sigma_sq self))"
    using run sqK sym dia by blast
  then show ?thesis
    by (intro exI)
qed

text \<open>
  The scenario: its angle matrix is symmetric with zero diagonal.
\<close>

theorem C5_symmetric_diagonal_witness:
  "0 < a scenario_kernel \<and> square 2 (elements scenario_theta) \<and>
   (\<exists>K G. call scenario_kernel scenario_theta None False = Inr (K, G) \<and>
      K ! 0 ! 1 = K ! 1 ! 0 \<and> K ! 0 ! 0 = Finite 2.1 \<and> K ! 1 ! 1 = Finite 2.1)"
proof -
  have pos: "0 < a scenario_kernel"
    by (simp add: scenario_kernel_def)
  have sym: "\<forall>i<2. \<forall>j<2. elements scenario_theta ! i ! j = elements scenario_theta ! j ! i"
    by (simp add: scenario_theta_def elements_def less_2_cases_iff)
  have dia: "\<forall>i<2. elements scenario_theta ! i ! i = 0"
    by (simp add: scenario_theta_def elements_def less_2_cases_iff)
  obtain K G where run: "call scenario_kernel scenario_theta None False = Inr (K, G)"
    and K: "\<forall>i<2. \<forall>j<2. K ! i ! j = K ! j ! i"
      "\<forall>i<2. K ! i ! i = Finite (lambda_s scenario_kernel + sigma_sq scenario_kernel)"
    using C5_symmetric_diagonal [OF pos scenario_square sym dia, of False] by blast
  have "K ! 0 ! 1 = K ! 1 ! 0" "K ! 0 ! 0 = Finite 2.1" "K ! 1 ! 1 = Finite 2.1"
    using K by (simp_all add: scenario_kernel_def)
  with pos scenario_square run show ?thesis
    by blast
qed

section \<open>The base correlation\<close>

lemma cubic_taper_antimono:
  fixes x y :: real
  assumes "0 \<le> x" "x \<le> y" "y \<le> 1"
  shows "1 - 3 * y ^ 2 + 2 * y ^ 3 \<le> 1 - 3 * x ^ 2 + 2 * x ^ 3"
proof -
  have x1: "x \<le> 1" and y0: "0 \<le> y"
    using assms by simp_all
  have "x * x \<le> x * 1" "y * y \<le> y * 1" "x * y \<le> x * 1" "x * y \<le> 1 * y"
    using assms x1 y0 by (intro mult_left_mono mult_right_mono; simp)+
  then have "0 \<le> 3 * (x + y) - 2 * (x * x + x * y + y * y)"
    by simp
  then have "0 \<le> (y - x) * (3 * (x + y) - 2 * (x * x + x * y + y * y))"
    using assms by (intro mult_nonneg_nonneg) simp_all
  also have "\<dots> = (1 - 3 * x ^ 2 + 2 * x ^ 3) - (1 - 3 * y ^ 2 + 2 * y ^ 3)"
    by (simp add: algebra_simps power2_eq_square power3_eq_cube)
  finally show ?thesis
    by simp
qed

text \<open>
  C6. For a positive cutoff \<open>c\<close>, one element of the base correlation of line 98 is the
  real number \<open>1 - 3 (t/c)\<^sup>2 + 2 (t/c)\<^sup>3\<close> when \<open>t \<le> c\<close> and \<open>0\<close> otherwise; it is \<open>1\<close> at
  \<open>t = 0\<close> and \<open>0\<close> at \<open>t = c\<close>; it does not increase on \<open>[0, c]\<close>; and it is \<open>0\<close> for every
  \<open>t > c\<close>. Arithmetic is exact: the rounding of the double-precision evaluation is not
  part of the statement.
\<close>

theorem C6_base_correlation:
  assumes "0 < c"
  shows "(\<forall>t. K_elem c t = Finite (if t \<le> c then 1 - 3 * (t / c) ^ 2 + 2 * (t / c) ^ 3 else 0))
       \<and> K_elem c 0 = Finite 1
       \<and> K_elem c c = Finite 0
       \<and> (\<forall>s t. 0 \<le> s \<and> s \<le> t \<and> t \<le> c
            \<longrightarrow> (\<exists>x y. K_elem c s = Finite x \<and> K_elem c t = Finite y \<and> y \<le> x))
       \<and> (\<forall>t. c < t \<longrightarrow> K_elem c t = Finite 0)"
proof (intro conjI allI impI)
  fix t
  show "K_elem c t = Finite (if t \<le> c then 1 - 3 * (t / c) ^ 2 + 2 * (t / c) ^ 3 else 0)"
    using assms by (simp add: K_elem_real)
next
  show "K_elem c 0 = Finite 1"
    using assms by (simp add: K_elem_real)
next
  show "K_elem c c = Finite 0"
    using assms by (simp add: K_elem_real)
next
  fix s t
  assume st: "0 \<le> s \<and> s \<le> t \<and> t \<le> c"
  then have "0 \<le> s / c" "s / c \<le> t / c" "t / c \<le> 1"
    using assms by (simp_all add: divide_right_mono)
  then have "1 - 3 * (t / c) ^ 2 + 2 * (t / c) ^ 3 \<le> 1 - 3 * (s / c) ^ 2 + 2 * (s / c) ^ 3"
    by (rule cubic_taper_antimono)
  then show "\<exists>x y. K_elem c s = Finite x \<and> K_elem c t = Finite y \<and> y \<le> x"
    using assms st by (simp add: K_elem_real)
next
  fix t
  assume "c < t"
  then show "K_elem c t = Finite 0"
    by (simp add: K_elem_def zero_flt_def)
qed

text \<open>
  At the cutoff \<open>1/2\<close>: the values at the angles \<open>0\<close>, \<open>1/2\<close> (the cutoff), \<open>1/4\<close> and
  \<open>3/5\<close> (beyond the cutoff).
\<close>

theorem C6_base_correlation_witness:
  "(0::real) < 1 / 2
   \<and> K_elem (1 / 2) 0 = Finite 1
   \<and> K_elem (1 / 2) (1 / 2) = Finite 0
   \<and> K_elem (1 / 2) (1 / 4) = Finite (1 / 2)
   \<and> K_elem (1 / 2) (3 / 5) = Finite 0"
proof -
  have pos: "(0::real) < 1 / 2"
    by simp
  note th = C6_base_correlation [OF pos]
  have "K_elem (1 / 2) (1 / 4) = Finite (1 / 2)"
    using th by (simp add: power_divide)
  moreover have "K_elem (1 / 2) (3 / 5) = Finite 0"
    using th by simp
  ultimately show ?thesis
    using th by simp
qed

section \<open>The diagonal operation\<close>

text \<open>
  C7. For an input \<open>X\<close> with \<open>n\<close> rows, \<open>diag\<close> returns a vector of length \<open>n\<close> whose every
  entry is \<open>lambda_s + sigma_sq\<close>; any other input with as many rows gives the same vector.
\<close>

theorem C7_diag:
  "length (diag self X) = length X
   \<and> (\<forall>i<length X. diag self X ! i = Finite (lambda_s self + sigma_sq self))
   \<and> (\<forall>Y. length Y = length X \<longrightarrow> diag self Y = diag self X)"
  by (simp add: diag_def shape_def)

text \<open>
  Two inputs with two rows each, of different widths and contents, on the kernel of the
  scenario.
\<close>

theorem C7_diag_witness:
  "length (diag scenario_kernel [[1, 2, 3], [4, 5, 6]]) = 2
   \<and> diag scenario_kernel [[1, 2, 3], [4, 5, 6]] ! 0 = Finite 2.1
   \<and> diag scenario_kernel [[1, 2, 3], [4, 5, 6]] ! 1 = Finite 2.1
   \<and> diag scenario_kernel [[7], [8]] = diag scenario_kernel [[1, 2, 3], [4, 5, 6]]"
proof -
  let ?X = "[[1, 2, 3], [4, 5, 6 :: real]]"
  note th = C7_diag [of scenario_kernel ?X]
  have len: "length (diag scenario_kernel ?X) = length ?X"
    by (rule th [THEN conjunct1])
  have ent: "\<forall>i<length ?X. diag scenario_kernel ?X ! i
               = Finite (lambda_s scenario_kernel + sigma_sq scenario_kernel)"
    by (rule th [THEN conjunct2, THEN conjunct1])
  have ind: "length [[7], [8 :: real]] = length ?X \<longrightarrow>
      diag scenario_kernel [[7], [8]] = diag scenario_kernel ?X"
    by (rule th [THEN conjunct2, THEN conjunct2, THEN spec])
  have e0: "diag scenario_kernel ?X ! 0 = Finite (lambda_s scenario_kernel + sigma_sq scenario_kernel)"
    using ent [THEN spec, of 0] by simp
  have e1: "diag scenario_kernel ?X ! 1 = Finite (lambda_s scenario_kernel + sigma_sq scenario_kernel)"
    using ent [THEN spec, of 1] by simp
  have v: "lambda_s scenario_kernel + sigma_sq scenario_kernel = 2.1"
    by (simp add: scenario_kernel_def)
  have "diag scenario_kernel [[7], [8]] = diag scenario_kernel ?X"
    using ind by simp
  moreover have "length (diag scenario_kernel ?X) = 2"
    using len by simp
  ultimately show ?thesis
    using e0 e1 v by simp
qed

section \<open>Parameters\<close>

lemma set_params_get_params: "set_params r (get_params (h r) deep) h = (r, h)"
  by (simp add: set_params_def get_params_def dict_get_def Let_def)

text \<open>
  C8. \<open>set_params\<close> with the dictionary that \<open>get_params\<close> returns (for either value of
  \<open>deep\<close>) leaves the store as it was, so the call on the object returns the same result
  before and after, for every \<open>theta\<close>, \<open>theta_prime\<close> and \<open>eval_gradient\<close>.
\<close>

theorem C8_round_trip:
  "set_params r (get_params (h r) deep) h = (r, h)
   \<and> call (snd (set_params r (get_params (h r) deep) h) r) theta theta_prime eval_gradient
       = call (h r) theta theta_prime eval_gradient"
  by (simp add: set_params_get_params)

text \<open>
  C9. \<open>set_params\<close> returns the reference it was called on. In the store it leaves, each of
  \<open>lambda_s\<close>, \<open>a\<close>, \<open>sigma_sq\<close> of that object is the value of its key when the key is
  present and the old value when it is absent; the three bounds are unchanged; every other
  object is unchanged. Two dictionaries that agree on the three keys have the same effect,
  whatever other keys they hold. The method has no error result.
\<close>

theorem C9_set_params_frame:
  "fst (set_params r params h) = r
   \<and> lambda_s (snd (set_params r params h) r)
       = (case params ''lambda_s'' of Some v \<Rightarrow> v | None \<Rightarrow> lambda_s (h r))
   \<and> a (snd (set_params r params h) r)
       = (case params ''a'' of Some v \<Rightarrow> v | None \<Rightarrow> a (h r))
   \<and> sigma_sq (snd (set_params r params h) r)
       = (case params ''sigma_sq'' of Some v \<Rightarrow> v | None \<Rightarrow> sigma_sq (h r))
   \<and> lambda_s_bounds (snd (set_params r params h) r) = lambda_s_bounds (h r)
   \<and> a_bounds (snd (set_params r params h) r) = a_bounds (h r)
   \<and> sigma_sq_bounds (snd (set_params r params h) r) = sigma_sq_bounds (h r)
   \<and> (\<forall>r'. r' \<noteq> r \<longrightarrow> snd (set_params r params h) r' = h r')
   \<and> (\<forall>params'. params' ''lambda_s'' = params ''lambda_s'' \<and> params' ''a'' = params ''a''
          \<and> params' ''sigma_sq'' = params ''sigma_sq''
        \<longrightarrow> set_params r params' h = set_params r params h)"
  by (simp add: set_params_def dict_get_def Let_def split: option.split)

text \<open>
  A dictionary with the key \<open>a\<close> and an unrecognised key \<open>foo\<close>, on a store that holds the
  kernel of the scenario at every reference.
\<close>

theorem C9_set_params_frame_witness:
  "fst (set_params 0 [''a'' \<mapsto> 3, ''foo'' \<mapsto> 7] (\<lambda>r. scenario_kernel)) = 0
   \<and> lambda_s (snd (set_params 0 [''a'' \<mapsto> 3, ''foo'' \<mapsto> 7] (\<lambda>r. scenario_kernel)) 0) = 2
   \<and> a (snd (set_params 0 [''a'' \<mapsto> 3, ''foo'' \<mapsto> 7] (\<lambda>r. scenario_kernel)) 0) = 3
   \<and> sigma_sq (snd (set_params 0 [''a'' \<mapsto> 3, ''foo'' \<mapsto> 7] (\<lambda>r. scenario_kernel)) 0) = 0.1
   \<and> a_bounds (snd (set_params 0 [''a'' \<mapsto> 3, ''foo'' \<mapsto> 7] (\<lambda>r. scenario_kernel)) 0)
       = Bounds 0.00001 pi
   \<and> snd (set_params 0 [''a'' \<mapsto> 3, ''foo'' \<mapsto> 7] (\<lambda>r. scenario_kernel)) 1 = scenario_kernel
   \<and> set_params 0 [''a'' \<mapsto> 3] (\<lambda>r. scenario_kernel)
       = set_params 0 [''a'' \<mapsto> 3, ''foo'' \<mapsto> 7] (\<lambda>r. scenario_kernel)"
proof -
  let ?p = "[''a'' \<mapsto> 3 :: real, ''foo'' \<mapsto> 7]"
  let ?h = "\<lambda>r :: nat. scenario_kernel"
  note th = C9_set_params_frame [of 0 ?p ?h]
  have other: "(1::nat) \<noteq> 0 \<longrightarrow> snd (set_params 0 ?p ?h) 1 = ?h 1"
    by (rule th [THEN conjunct2, THEN conjunct2, THEN conjunct2, THEN conjunct2, THEN conjunct2,
          THEN conjunct2, THEN conjunct2, THEN conjunct1, THEN spec])
  have ign: "[''a'' \<mapsto> 3 :: real] ''lambda_s'' = ?p ''lambda_s'' \<and> [''a'' \<mapsto> 3 :: real] ''a'' = ?p ''a''
          \<and> [''a'' \<mapsto> 3 :: real] ''sigma_sq'' = ?p ''sigma_sq''
        \<longrightarrow> set_params 0 [''a'' \<mapsto> 3] ?h = set_params 0 ?p ?h"
    by (rule th [THEN conjunct2, THEN conjunct2, THEN conjunct2, THEN conjunct2, THEN conjunct2,
          THEN conjunct2, THEN conjunct2, THEN conjunct2, THEN spec])
  have 1: "fst (set_params 0 ?p ?h) = 0"
    by (rule th [THEN conjunct1])
  have 2: "lambda_s (snd (set_params 0 ?p ?h) 0) = 2"
    using th [THEN conjunct2, THEN conjunct1] by (simp add: scenario_kernel_def)
  have 3: "a (snd (set_params 0 ?p ?h) 0) = 3"
    using th [THEN conjunct2, THEN conjunct2, THEN conjunct1] by simp
  have 4: "sigma_sq (snd (set_params 0 ?p ?h) 0) = 0.1"
    using th [THEN conjunct2, THEN conjunct2, THEN conjunct2, THEN conjunct1]
    by (simp add: scenario_kernel_def)
  have 5: "a_bounds (snd (set_params 0 ?p ?h) 0) = Bounds 0.00001 pi"
    using th [THEN conjunct2, THEN conjunct2, THEN conjunct2, THEN conjunct2, THEN conjunct2,
          THEN conjunct1]
    by (simp add: scenario_kernel_def)
  have 6: "snd (set_params 0 ?p ?h) 1 = scenario_kernel"
    using other by simp
  have 7: "set_params 0 [''a'' \<mapsto> 3] ?h = set_params 0 ?p ?h"
    using ign by simp
  from 1 2 3 4 5 6 7 show ?thesis
    by (intro conjI)
qed

text \<open>
  C10. \<open>get_params\<close> returns a dictionary with exactly the keys \<open>lambda_s\<close>, \<open>a\<close> and
  \<open>sigma_sq\<close>, bound to the current values, and it is the same for \<open>deep\<close> true and false.
\<close>

theorem C10_get_params:
  "dom (get_params self deep) = {''lambda_s'', ''a'', ''sigma_sq''}
   \<and> get_params self deep ''lambda_s'' = Some (lambda_s self)
   \<and> get_params self deep ''a'' = Some (a self)
   \<and> get_params self deep ''sigma_sq'' = Some (sigma_sq self)
   \<and> get_params self True = get_params self False"
  by (auto simp: get_params_def)

end
